theory Spec2Isabelle
  imports Main "HOL-Library.Word"
begin

unbundle bit_operations_syntax

section \<open>The UDP tracker client\<close>

text \<open>
  A shallow embedding of package \<open>udp_tracker\<close>. The repository holds two variants of the
  file: \<^verbatim>\<open>tracker/udp/udp_tracker.go\<close>, the current one, and an earlier one, which has no
  BEP 41 trailer, no error action and no \<open>net.Dial\<close>. Definitions without a suffix follow
  \<^verbatim>\<open>tracker/udp/udp_tracker.go\<close>; definitions ending in \<open>0\<close> follow the earlier variant
  where it differs.
\<close>

subsection \<open>Basic types\<close>

type_synonym byte = "8 word"
type_synonym uint16 = "16 word"
type_synonym int32 = "32 word"
type_synonym int64 = "64 word"

text \<open>Go's \<open>int\<close>, on a 64-bit platform; read as two's complement with \<^const>\<open>sint\<close>.\<close>

type_synonym go_int = "64 word"

text \<open>\<open>type Action int32\<close> with its four constants, and the BEP 41 option types.\<close>

type_synonym Action = int32

definition Connect :: Action where "Connect = 0"
definition Announce :: Action where "Announce = 1"
definition Scrape :: Action where "Scrape = 2"
definition Error :: Action where "Error = 3"

definition optionTypeEndOfOptions :: byte where "optionTypeEndOfOptions = 0"
definition optionTypeNOP :: byte where "optionTypeNOP = 1"
definition optionTypeURLData :: byte where "optionTypeURLData = 2"

subsection \<open>Time\<close>

text \<open>
  \<open>time.Duration\<close> is an \<open>int64\<close> count of nanoseconds. A \<open>time.Time\<close> is modelled as the
  number of nanoseconds since the zero \<open>Time\<close> (the instant \<open>IsZero\<close> recognises).
\<close>

type_synonym Duration = int64
type_synonym Time = int

definition Second :: Duration where "Second = 1000000000"
definition Minute :: Duration where "Minute = 60 * Second"

definition IsZero :: "Time \<Rightarrow> bool" where
  "IsZero t = (t = 0)"

definition Add :: "Time \<Rightarrow> Duration \<Rightarrow> Time" where
  "Add t d = t + sint d"

definition Before :: "Time \<Rightarrow> Time \<Rightarrow> bool" where
  "Before t u = (t < u)"

subsection \<open>The backoff function\<close>

text \<open>
  \<^verbatim>\<open>
  func timeout(contiguousTimeouts int) (d time.Duration) {
      if contiguousTimeouts > 8 { contiguousTimeouts = 8 }
      d = 15 * time.Second
      for ; contiguousTimeouts > 0; contiguousTimeouts-- { d *= 2 }
      return
  }
  \<close>
  The loop is \<open>timeout_loop\<close>; both the counter and the duration are 64-bit machine
  integers, so \<open>d * 2\<close> and \<open>contiguousTimeouts - 1\<close> wrap.
\<close>

function timeout_loop :: "go_int \<Rightarrow> Duration \<Rightarrow> Duration" where
  "timeout_loop contiguousTimeouts d =
     (if 0 < sint contiguousTimeouts then timeout_loop (contiguousTimeouts - 1) (d * 2) else d)"
  by pat_completeness auto
termination
proof (relation "measure (\<lambda>(n, d). nat (sint n))")
  show "wf (measure (\<lambda>(n :: go_int, d :: Duration). nat (sint n)))"
    by simp
next
  fix n :: go_int and d :: Duration
  assume pos: "0 < sint n"
  have "sint n < 2 ^ 63"
    using sint_lt [of n] by simp
  with pos have "signed_take_bit 63 (sint n - 1) = sint n - 1"
    by (intro signed_take_bit_int_eq_self) simp_all
  then have "sint (n - 1) = sint n - 1"
    by (simp add: sint_word_ariths)
  with pos show "((n - 1, d * 2), (n, d)) \<in> measure (\<lambda>(n, d). nat (sint n))"
    by simp
qed

declare timeout_loop.simps [simp del]

definition timeout :: "go_int \<Rightarrow> Duration" where
  "timeout contiguousTimeouts =
     timeout_loop (if 8 < sint contiguousTimeouts then 8 else contiguousTimeouts) (15 * Second)"

subsection \<open>Errors and outcomes\<close>

text \<open>
  The error values this package handles: \<open>io.EOF\<close>, \<open>io.ErrUnexpectedEOF\<close>,
  \<open>tracker.ErrNotConnected\<close>, a \<open>*net.OpError\<close> (with the answer of its \<open>Timeout()\<close>
  method and its message), and the string errors built by \<open>errors.New\<close> and \<open>fmt.Errorf\<close>
  or returned by a transport that does not use \<open>*net.OpError\<close>.
\<close>

datatype error =
    EOF
  | ErrUnexpectedEOF
  | ErrNotConnected
  | OpError bool string
  | errorString string

text \<open>
  \<open>err.Error()\<close>, as \<open>%s\<close> formats it. (\<open>tracker.ErrNotConnected\<close> is declared in package
  \<open>tracker\<close>; this package never formats it.)
\<close>

fun Error_text :: "error \<Rightarrow> string" where
  "Error_text EOF = ''EOF''"
| "Error_text ErrUnexpectedEOF = ''unexpected EOF''"
| "Error_text ErrNotConnected = ''not connected''"
| "Error_text (OpError t m) = m"
| "Error_text (errorString m) = m"

text \<open>\<open>opE, ok := err.(*net.OpError); ok && opE.Timeout()\<close>\<close>

fun OpError_Timeout :: "error \<Rightarrow> bool" where
  "OpError_Timeout (OpError t m) = t"
| "OpError_Timeout e = False"

text \<open>
  A call returns, panics, or is still blocked in \<open>socket.Read\<close> when the modelled
  sequence of reads ends.
\<close>

datatype 'a outcome = Returns 'a | Panics | Blocks

subsection \<open>Wire codec\<close>

text \<open>A Go string is a sequence of bytes; \<open>[]byte(s)\<close> and \<open>string(b)\<close> convert.\<close>

definition bytes :: "string \<Rightarrow> byte list" where
  "bytes s = map of_char s"

definition String :: "byte list \<Rightarrow> string" where
  "String b = map (\<lambda>x. char_of (unat x)) b"

text \<open>
  \<open>io.ReadFull\<close> of \<open>n\<close> bytes from an in-memory reader holding \<open>r\<close>: the bytes read and
  the rest, \<open>io.EOF\<close> when nothing could be read, \<open>io.ErrUnexpectedEOF\<close> when the reader
  ran out after some but not all bytes. \<open>binary.Read\<close> of a fixed-size value is a
  \<open>ReadFull\<close> of its size followed by big-endian decoding.
\<close>

definition ReadFull :: "nat \<Rightarrow> byte list \<Rightarrow> error + byte list \<times> byte list" where
  "ReadFull n r =
     (if n \<le> length r then Inr (take n r, drop n r)
      else if r = [] then Inl EOF
      else Inl ErrUnexpectedEOF)"

definition BigEndian :: "byte list \<Rightarrow> 'a::len word" where
  "BigEndian bs = foldl (\<lambda>acc b. push_bit 8 acc OR ucast b) 0 bs"

definition PutBigEndian :: "nat \<Rightarrow> 'a::len word \<Rightarrow> byte list" where
  "PutBigEndian n w = map (\<lambda>i. ucast (drop_bit (8 * i) w)) (rev [0..<n])"

record ResponseHeader =
  Action :: Action
  TransactionId :: int32

record RequestHeader =
  req_ConnectionId :: int64
  req_Action :: Action
  req_TransactionId :: int32

record AnnounceResponseHeader =
  h_Interval :: int32
  h_Leechers :: int32
  h_Seeders :: int32

record Peer =
  IP :: "byte list"
  Port :: uint16

text \<open>\<open>tracker.Peer\<close> and \<open>tracker.AnnounceResponse\<close>, as this package fills them.\<close>

record tracker_Peer =
  peer_IP :: "byte list"
  peer_Port :: int

record AnnounceResponse =
  Interval :: int32
  Leechers :: int32
  Seeders :: int32
  Peers :: "tracker_Peer list"

definition write_RequestHeader :: "RequestHeader \<Rightarrow> byte list" where
  "write_RequestHeader h =
     PutBigEndian 8 (req_ConnectionId h) @ PutBigEndian 4 (req_Action h)
       @ PutBigEndian 4 (req_TransactionId h)"

definition read_ResponseHeader :: "byte list \<Rightarrow> error + ResponseHeader \<times> byte list" where
  "read_ResponseHeader b =
     (case ReadFull 8 b of
        Inl e \<Rightarrow> Inl e
      | Inr (bs, rest) \<Rightarrow>
          Inr (\<lparr>Action = BigEndian (take 4 bs), TransactionId = BigEndian (drop 4 bs)\<rparr>, rest))"

definition read_AnnounceResponseHeader ::
    "byte list \<Rightarrow> error + AnnounceResponseHeader \<times> byte list" where
  "read_AnnounceResponseHeader b =
     (case ReadFull 12 b of
        Inl e \<Rightarrow> Inl e
      | Inr (bs, rest) \<Rightarrow>
          Inr (\<lparr>h_Interval = BigEndian (take 4 bs),
                h_Leechers = BigEndian (take 4 (drop 4 bs)),
                h_Seeders = BigEndian (drop 8 bs)\<rparr>, rest))"

definition read_Peer :: "byte list \<Rightarrow> error + Peer \<times> byte list" where
  "read_Peer b =
     (case ReadFull 6 b of
        Inl e \<Rightarrow> Inl e
      | Inr (bs, rest) \<Rightarrow> Inr (\<lparr>IP = take 4 bs, Port = BigEndian (drop 4 bs)\<rparr>, rest))"

definition read_ConnectionResponse :: "byte list \<Rightarrow> error + int64 \<times> byte list" where
  "read_ConnectionResponse b =
     (case ReadFull 8 b of
        Inl e \<Rightarrow> Inl e
      | Inr (bs, rest) \<Rightarrow> Inr (BigEndian bs, rest))"

subsection \<open>The client\<close>

text \<open>
  Of \<open>url.URL\<close> the client uses \<open>Host\<close> and \<open>RequestURI()\<close>. The socket is \<open>nil\<close> or a
  connection; what the connection answers to \<open>Write\<close> and \<open>Read\<close> is given to each call.
\<close>

record URL =
  Host :: string
  RequestURI :: string

type_synonym Conn = nat

record client =
  contiguousTimeouts :: go_int
  connectionIdReceived :: Time
  connectionId :: int64
  socket :: "Conn option"
  url :: URL

definition newClient :: "URL \<Rightarrow> client" where
  "newClient u =
     \<lparr>contiguousTimeouts = 0, connectionIdReceived = 0, connectionId = 0,
      socket = None, url = u\<rparr>"

text \<open>
  \<^verbatim>\<open>
  func (c *client) connected() bool {
      return !c.connectionIdReceived.IsZero() &&
          time.Now().Before(c.connectionIdReceived.Add(time.Minute))
  }
  \<close>
  \<open>now\<close> is what \<open>time.Now()\<close> returns.
\<close>

definition connected :: "client \<Rightarrow> Time \<Rightarrow> bool" where
  "connected c now =
     (\<not> IsZero (connectionIdReceived c) \<and> Before now (Add (connectionIdReceived c) Minute))"

subsection \<open>Sending a request\<close>

text \<open>
  The request body is an \<open>interface{}\<close>: \<open>nil\<close>, or a value that \<open>binary.Write\<close> either
  serialises (\<open>Body (Some bs)\<close>) or rejects (\<open>Body None\<close>). \<open>Write\<close> is the socket's write:
  it answers the number of bytes sent and an error.

  \<open>client.write\<close> panics when the body cannot be serialised, when the socket is \<open>nil\<close>, and
  when the write is short without an error.
  \<^verbatim>\<open>
  func (c *client) write(h *RequestHeader, body interface{}, trailer []byte) (err error) {
      buf := &bytes.Buffer{}
      err = binary.Write(buf, binary.BigEndian, h)
      if err != nil { panic(err) }
      if body != nil {
          err = binary.Write(buf, binary.BigEndian, body)
          if err != nil { panic(err) }
      }
      _, err = buf.Write(trailer)
      if err != nil { return }
      n, err := c.socket.Write(buf.Bytes())
      if err != nil { return }
      if n != buf.Len() { panic("write should send all or error") }
      return
  }
  \<close>
\<close>

datatype body = NilBody | Body "byte list option"

definition client_write ::
    "client \<Rightarrow> (byte list \<Rightarrow> nat \<times> error option) \<Rightarrow> RequestHeader \<Rightarrow> body \<Rightarrow> byte list
      \<Rightarrow> error option outcome" where
  "client_write c Write h b trailer =
     (case b of
        Body None \<Rightarrow> Panics
      | _ \<Rightarrow>
        (let buf = write_RequestHeader h @ (case b of Body (Some bs) \<Rightarrow> bs | _ \<Rightarrow> []) @ trailer
         in if socket c = None then Panics
            else (case Write buf of
                    (n, Some e) \<Rightarrow> Returns (Some e)
                  | (n, None) \<Rightarrow> if n \<noteq> length buf then Panics else Returns None)))"

text \<open>
  The earlier variant has no trailer and no \<open>nil\<close> check: it hands every body to
  \<open>binary.Write\<close>, whose answer is \<open>enc\<close> (the serialisation, or \<open>None\<close> for an error).
\<close>

definition client_write0 ::
    "client \<Rightarrow> (byte list \<Rightarrow> nat \<times> error option) \<Rightarrow> RequestHeader \<Rightarrow> byte list option
      \<Rightarrow> error option outcome" where
  "client_write0 c Write h enc =
     (case enc of
        None \<Rightarrow> Panics
      | Some bs \<Rightarrow>
        (let buf = write_RequestHeader h @ bs
         in if socket c = None then Panics
            else (case Write buf of
                    (n, Some e) \<Rightarrow> Returns (Some e)
                  | (n, None) \<Rightarrow> if n \<noteq> length buf then Panics else Returns None)))"

subsection \<open>The request/response engine\<close>

text \<open>
  The read loop of \<open>client.request\<close>. Each element of the list is the answer of one
  \<open>c.socket.Read(b)\<close>: the bytes \<open>b[:n]\<close> and the error. The read deadline, set once
  before the loop from \<^const>\<open>timeout\<close>, decides when the socket answers with a timeout.
  \<^verbatim>\<open>
  for {
      n, err = c.socket.Read(b)
      if opE, ok := err.(*net.OpError); ok {
          if opE.Timeout() { c.contiguousTimeouts++; return }
      }
      if err != nil { return }
      buf := bytes.NewBuffer(b[:n])
      var h ResponseHeader
      err = binary.Read(buf, binary.BigEndian, &h)
      switch err {
      case io.ErrUnexpectedEOF: continue
      case nil:
      default: return
      }
      if h.TransactionId != tid { continue }
      c.contiguousTimeouts = 0
      if h.Action == Error { err = errors.New(buf.String()) }
      responseBody = bytes.NewReader(buf.Bytes())
      return
  }
  \<close>
  The result is the client, \<open>responseBody\<close> (\<open>None\<close> for \<open>nil\<close>) and \<open>err\<close>.
\<close>

type_synonym read_result = "byte list \<times> error option"

fun request_loop ::
    "client \<Rightarrow> int32 \<Rightarrow> read_result list
      \<Rightarrow> (client \<times> byte list option \<times> error option) outcome" where
  "request_loop c tid [] = Blocks"
| "request_loop c tid ((b, err) # rs) =
     (if (case err of Some e \<Rightarrow> OpError_Timeout e | None \<Rightarrow> False)
      then Returns (c\<lparr>contiguousTimeouts := contiguousTimeouts c + 1\<rparr>, None, err)
      else if err \<noteq> None then Returns (c, None, err)
      else (case read_ResponseHeader b of
              Inl e \<Rightarrow>
                if e = ErrUnexpectedEOF then request_loop c tid rs
                else Returns (c, None, Some e)
            | Inr (h, rest) \<Rightarrow>
                if TransactionId h \<noteq> tid then request_loop c tid rs
                else Returns (c\<lparr>contiguousTimeouts := 0\<rparr>, Some rest,
                       if Action h = Error then Some (errorString (String rest)) else None)))"

definition client_request ::
    "client \<Rightarrow> Action \<Rightarrow> body \<Rightarrow> byte list \<Rightarrow> int32 \<Rightarrow> (byte list \<Rightarrow> nat \<times> error option)
      \<Rightarrow> read_result list \<Rightarrow> (client \<times> byte list option \<times> error option) outcome" where
  "client_request c action args options tid Write rs =
     (case client_write c Write
             \<lparr>req_ConnectionId = connectionId c, req_Action = action, req_TransactionId = tid\<rparr>
             args options of
        Panics \<Rightarrow> Panics
      | Blocks \<Rightarrow> Blocks
      | Returns (Some e) \<Rightarrow> Returns (c, None, Some e)
      | Returns None \<Rightarrow> request_loop c tid rs)"

text \<open>
  The earlier variant compares the action as well, has no error action, and returns the
  body as a byte slice (\<open>[]\<close> for \<open>nil\<close>):
  \<^verbatim>\<open>
      if h.Action != action { continue }
      if h.TransactionId != tid { continue }
      c.contiguousTimeouts = 0
      responseBody = buf.Bytes()
      return
  \<close>
\<close>

fun request_loop0 ::
    "client \<Rightarrow> Action \<Rightarrow> int32 \<Rightarrow> read_result list
      \<Rightarrow> (client \<times> byte list \<times> error option) outcome" where
  "request_loop0 c action tid [] = Blocks"
| "request_loop0 c action tid ((b, err) # rs) =
     (if (case err of Some e \<Rightarrow> OpError_Timeout e | None \<Rightarrow> False)
      then Returns (c\<lparr>contiguousTimeouts := contiguousTimeouts c + 1\<rparr>, [], err)
      else if err \<noteq> None then Returns (c, [], err)
      else (case read_ResponseHeader b of
              Inl e \<Rightarrow>
                if e = ErrUnexpectedEOF then request_loop0 c action tid rs
                else Returns (c, [], Some e)
            | Inr (h, rest) \<Rightarrow>
                if Action h \<noteq> action then request_loop0 c action tid rs
                else if TransactionId h \<noteq> tid then request_loop0 c action tid rs
                else Returns (c\<lparr>contiguousTimeouts := 0\<rparr>, rest, None)))"

definition client_request0 ::
    "client \<Rightarrow> Action \<Rightarrow> byte list option \<Rightarrow> int32 \<Rightarrow> (byte list \<Rightarrow> nat \<times> error option)
      \<Rightarrow> read_result list \<Rightarrow> (client \<times> byte list \<times> error option) outcome" where
  "client_request0 c action enc tid Write rs =
     (case client_write0 c Write
             \<lparr>req_ConnectionId = connectionId c, req_Action = action, req_TransactionId = tid\<rparr>
             enc of
        Panics \<Rightarrow> Panics
      | Blocks \<Rightarrow> Blocks
      | Returns (Some e) \<Rightarrow> Returns (c, [], Some e)
      | Returns None \<Rightarrow> request_loop0 c action tid rs)"

subsection \<open>Announce\<close>

text \<open>
  The BEP 41 option block of \<open>Announce\<close>:
  \<^verbatim>\<open>
  reqURI := c.url.RequestURI()
  // Clearly this limits the request URI to 255 bytes. BEP 41 supports
  // longer but I'm not fussed.
  options := append([]byte{optionTypeURLData, byte(len(reqURI))}, []byte(reqURI)...)
  \<close>
  \<open>byte(len(reqURI))\<close> keeps the low eight bits of the length.
\<close>

definition Announce_options :: "string \<Rightarrow> byte list" where
  "Announce_options reqURI = [optionTypeURLData, of_nat (length reqURI)] @ bytes reqURI"

text \<open>
  The peer loop of \<open>Announce\<close>, with \<open>res.Peers\<close> as accumulator; it returns the peers
  appended so far and \<open>err\<close>:
  \<^verbatim>\<open>
  for {
      var p Peer
      err = binary.Read(b, binary.BigEndian, &p)
      switch err {
      case nil:
      case io.EOF:
          err = nil
          fallthrough
      default:
          return
      }
      res.Peers = append(res.Peers, tracker.Peer{IP: p.IP[:], Port: int(p.Port)})
  }
  \<close>
\<close>

function Announce_peers ::
    "byte list \<Rightarrow> tracker_Peer list \<Rightarrow> tracker_Peer list \<times> error option" where
  "Announce_peers b peers =
     (case read_Peer b of
        Inl e \<Rightarrow> (peers, if e = EOF then None else Some e)
      | Inr (p, rest) \<Rightarrow>
          Announce_peers rest (peers @ [\<lparr>peer_IP = IP p, peer_Port = uint (Port p)\<rparr>]))"
  by pat_completeness auto
termination
proof (relation "measure (\<lambda>(b, peers). length b)")
  show "wf (measure (\<lambda>(b :: byte list, peers :: tracker_Peer list). length b))"
    by simp
next
  fix b :: "byte list" and peers :: "tracker_Peer list" and x p rest
  assume "read_Peer b = Inr x" and "(p, rest) = x"
  then have "length rest < length b"
    by (auto simp: read_Peer_def ReadFull_def split: if_splits)
  then show "((rest, peers @ [\<lparr>peer_IP = IP p, peer_Port = uint (Port p)\<rparr>]), (b, peers))
               \<in> measure (\<lambda>(b, peers). length b)"
    by simp
qed

declare Announce_peers.simps [simp del]

definition no_response :: AnnounceResponse where
  "no_response = \<lparr>Interval = 0, Leechers = 0, Seeders = 0, Peers = []\<rparr>"

text \<open>
  \<open>client.Announce\<close>. \<open>req\<close> is what \<open>binary.Write\<close> makes of the announce request. The
  result is the client, \<open>res\<close> and \<open>err\<close>; \<open>res\<close> is the zero value until the announce
  header has been read.
  \<^verbatim>\<open>
  if !c.connected() { err = tracker.ErrNotConnected; return }
  reqURI := c.url.RequestURI()
  options := append([]byte{optionTypeURLData, byte(len(reqURI))}, []byte(reqURI)...)
  b, err := c.request(Announce, req, options)
  if err != nil { return }
  var h AnnounceResponseHeader
  err = readBody(b, &h)
  if err != nil {
      if err == io.EOF { err = io.ErrUnexpectedEOF }
      err = fmt.Errorf("error parsing announce response: %s", err)
      return
  }
  res.Interval = h.Interval
  res.Leechers = h.Leechers
  res.Seeders = h.Seeders
  for { ... }
  \<close>
\<close>

definition client_Announce ::
    "client \<Rightarrow> Time \<Rightarrow> byte list option \<Rightarrow> int32 \<Rightarrow> (byte list \<Rightarrow> nat \<times> error option)
      \<Rightarrow> read_result list \<Rightarrow> (client \<times> AnnounceResponse \<times> error option) outcome" where
  "client_Announce c now req tid Write rs =
     (if \<not> connected c now then Returns (c, no_response, Some ErrNotConnected)
      else
        (case client_request c Announce (Body req) (Announce_options (RequestURI (url c)))
                tid Write rs of
           Panics \<Rightarrow> Panics
         | Blocks \<Rightarrow> Blocks
         | Returns (c', b, err) \<Rightarrow>
             (case err of
                Some e \<Rightarrow> Returns (c', no_response, Some e)
              | None \<Rightarrow>
                  (case b of
                     None \<Rightarrow> Panics
                   | Some r \<Rightarrow>
                       (case read_AnnounceResponseHeader r of
                          Inl e \<Rightarrow>
                            Returns (c', no_response,
                              Some (errorString (''error parsing announce response: '' @
                                Error_text (if e = EOF then ErrUnexpectedEOF else e))))
                        | Inr (h, rest) \<Rightarrow>
                            (case Announce_peers rest [] of
                               (peers, err') \<Rightarrow>
                                 Returns (c',
                                   \<lparr>Interval = h_Interval h, Leechers = h_Leechers h,
                                    Seeders = h_Seeders h, Peers = peers\<rparr>, err')))))))"

subsection \<open>Connect\<close>

text \<open>
  \<open>client.Connect\<close>. \<open>now\<close> is the clock when \<open>connected\<close> is asked, \<open>dial\<close> the answer of
  \<open>net.Dial\<close> should the socket be \<open>nil\<close>, \<open>now'\<close> the clock when the connection id is
  stored.
  \<^verbatim>\<open>
  if c.connected() { return nil }
  c.connectionId = 0x41727101980
  if c.socket == nil {
      c.socket, err = net.Dial("udp", c.url.Host)
      if err != nil { return }
  }
  b, err := c.request(Connect, nil, nil)
  if err != nil { return }
  var res ConnectionResponse
  err = readBody(b, &res)
  if err != nil { return }
  c.connectionId = res.ConnectionId
  c.connectionIdReceived = time.Now()
  return
  \<close>
\<close>

definition client_Connect ::
    "client \<Rightarrow> Time \<Rightarrow> error + Conn \<Rightarrow> int32 \<Rightarrow> (byte list \<Rightarrow> nat \<times> error option)
      \<Rightarrow> read_result list \<Rightarrow> Time \<Rightarrow> (client \<times> error option) outcome" where
  "client_Connect c now dial tid Write rs now' =
     (if connected c now then Returns (c, None)
      else
        (let c1 = c\<lparr>connectionId := 0x41727101980\<rparr> in
         case (if socket c1 = None
               then (case dial of Inl e \<Rightarrow> Inl e | Inr s \<Rightarrow> Inr (c1\<lparr>socket := Some s\<rparr>))
               else Inr c1) of
           Inl e \<Rightarrow> Returns (c1, Some e)
         | Inr c2 \<Rightarrow>
             (case client_request c2 Connect NilBody [] tid Write rs of
                Panics \<Rightarrow> Panics
              | Blocks \<Rightarrow> Blocks
              | Returns (c3, b, err) \<Rightarrow>
                  (case err of
                     Some e \<Rightarrow> Returns (c3, Some e)
                   | None \<Rightarrow>
                       (case b of
                          None \<Rightarrow> Panics
                        | Some r \<Rightarrow>
                            (case read_ConnectionResponse r of
                               Inl e \<Rightarrow> Returns (c3, Some e)
                             | Inr (cid, rest) \<Rightarrow>
                                 Returns (c3\<lparr>connectionId := cid,
                                             connectionIdReceived := now'\<rparr>, None)))))))"

text \<open>
  The earlier variant's \<open>connect\<close> tests the age of the connection id in place and never
  dials; \<open>enc\<close> is what \<open>binary.Write\<close> makes of the \<open>nil\<close> body.
\<close>

definition client_connect0 ::
    "client \<Rightarrow> Time \<Rightarrow> byte list option \<Rightarrow> int32 \<Rightarrow> (byte list \<Rightarrow> nat \<times> error option)
      \<Rightarrow> read_result list \<Rightarrow> Time \<Rightarrow> (client \<times> error option) outcome" where
  "client_connect0 c now enc tid Write rs now' =
     (if \<not> IsZero (connectionIdReceived c) \<and> Before now (Add (connectionIdReceived c) Minute)
      then Returns (c, None)
      else
        (let c1 = c\<lparr>connectionId := 0x41727101980\<rparr> in
         case client_request0 c1 Connect enc tid Write rs of
           Panics \<Rightarrow> Panics
         | Blocks \<Rightarrow> Blocks
         | Returns (c2, b, err) \<Rightarrow>
             (case err of
                Some e \<Rightarrow> Returns (c2, Some e)
              | None \<Rightarrow>
                  (case read_ConnectionResponse b of
                     Inl e \<Rightarrow> Returns (c2, Some e)
                   | Inr (cid, rest) \<Rightarrow>
                       Returns (c2\<lparr>connectionId := cid, connectionIdReceived := now'\<rparr>,
                                None)))))"



subsection \<open>Noise datagrams and a socket that sends everything\<close>

text \<open>
  The datagrams the read loop passes over with \<open>continue\<close>: those for which the header
  read ends in \<open>io.ErrUnexpectedEOF\<close>, and those carrying another transaction id (in the
  earlier variant: another action or another transaction id).
\<close>

definition discarded :: "int32 \<Rightarrow> byte list \<Rightarrow> bool" where
  "discarded tid d =
     (case read_ResponseHeader d of
        Inl e \<Rightarrow> e = ErrUnexpectedEOF
      | Inr (h, rest) \<Rightarrow> TransactionId h \<noteq> tid)"

definition discarded0 :: "Action \<Rightarrow> int32 \<Rightarrow> byte list \<Rightarrow> bool" where
  "discarded0 action tid d =
     (case read_ResponseHeader d of
        Inl e \<Rightarrow> e = ErrUnexpectedEOF
      | Inr (h, rest) \<Rightarrow> Action h \<noteq> action \<or> TransactionId h \<noteq> tid)"

abbreviation datagrams :: "byte list list \<Rightarrow> read_result list" where
  "datagrams ds \<equiv> map (\<lambda>d. (d, None)) ds"

text \<open>
  The \<open>i\<close>-th six-byte record of a peer list, as a \<open>tracker.Peer\<close>: four bytes of
  address, then the port as a big-endian \<open>uint16\<close>.
\<close>

definition peer_entry :: "byte list \<Rightarrow> nat \<Rightarrow> tracker_Peer" where
  "peer_entry b i =
     \<lparr>peer_IP = take 4 (drop (6 * i) b),
      peer_Port = uint (BigEndian (take 2 (drop (6 * i + 4) b)) :: uint16)\<rparr>"

text \<open>A socket write that sends the whole buffer.\<close>

definition sends_all :: "byte list \<Rightarrow> nat \<times> error option" where
  "sends_all buf = (length buf, None)"

definition example_url :: URL where
  "example_url = \<lparr>Host = ''tracker:6969'', RequestURI = ''/announce''\<rparr>"

text \<open>A client that has dialled and holds a connection id received at time 100.\<close>

definition example_client :: client where
  "example_client =
     \<lparr>contiguousTimeouts = 5, connectionIdReceived = 100, connectionId = 77,
      socket = Some 0, url = example_url\<rparr>"

section \<open>Properties\<close>

subsection \<open>Helper lemmas\<close>

lemma sint_pred:
  fixes n :: go_int
  assumes "0 < sint n"
  shows "sint (n - 1) = sint n - 1"
proof -
  have b: "sint n < 2 ^ 63"
    using sint_lt [of n] by simp
  have "sint (n - 1) = signed_take_bit 63 (sint n - 1)"
    by (simp add: sint_word_ariths)
  also have "\<dots> = sint n - 1"
    using assms b by (intro signed_take_bit_int_eq_self) simp_all
  finally show ?thesis .
qed

lemma timeout_loop_eq: "timeout_loop n d = d * 2 ^ nat (sint n)"
proof (induction n d rule: timeout_loop.induct)
  case (1 n d)
  show ?case
  proof (cases "0 < sint n")
    case True
    have "nat (sint n) = Suc (nat (sint n - 1))" using True by simp
    with True 1 show ?thesis by (subst timeout_loop.simps) (simp add: sint_pred mult.assoc)
  next
    case False
    then show ?thesis by (subst timeout_loop.simps) simp
  qed
qed

lemma sint_backoff:
  assumes "k \<le> 8"
  shows "sint (15 * Second * 2 ^ k) = 15 * 1000000000 * 2 ^ k"
proof -
  from assms have "k \<in> {0, 1, 2, 3, 4, 5, 6, 7, 8}"
    by auto
  then show ?thesis
    by (auto simp: Second_def)
qed

lemma request_loop_skip:
  assumes "\<forall>d\<in>set pre. discarded tid d"
  shows "request_loop c tid (datagrams pre @ rs) = request_loop c tid rs"
  using assms
  by (induction pre) (auto simp: discarded_def split: sum.splits)

lemma request_loop0_skip:
  assumes "\<forall>d\<in>set pre. discarded0 action tid d"
  shows "request_loop0 c action tid (datagrams pre @ rs) = request_loop0 c action tid rs"
  using assms
  by (induction pre) (auto simp: discarded0_def split: sum.splits)

lemma client_request_sent:
  assumes "client_write c Write
             \<lparr>req_ConnectionId = connectionId c, req_Action = action, req_TransactionId = tid\<rparr>
             args options = Returns None"
  shows "client_request c action args options tid Write rs = request_loop c tid rs"
  using assms by (simp add: client_request_def)

lemma client_request0_sent:
  assumes "client_write0 c Write
             \<lparr>req_ConnectionId = connectionId c, req_Action = action, req_TransactionId = tid\<rparr>
             enc = Returns None"
  shows "client_request0 c action enc tid Write rs = request_loop0 c action tid rs"
  using assms by (simp add: client_request0_def)

lemma request_loop_frame:
  assumes "request_loop c tid rs = Returns (c', b, err)"
  shows "connectionIdReceived c' = connectionIdReceived c \<and> socket c' = socket c
         \<and> connectionId c' = connectionId c \<and> url c' = url c"
  using assms
  by (induction rs) (auto split: if_splits sum.splits option.splits)

lemma request_loop0_frame:
  assumes "request_loop0 c action tid rs = Returns (c', b, err)"
  shows "connectionIdReceived c' = connectionIdReceived c \<and> socket c' = socket c
         \<and> connectionId c' = connectionId c \<and> url c' = url c"
  using assms
  by (induction rs) (auto split: if_splits sum.splits option.splits)

lemma client_request_frame:
  assumes "client_request c action args options tid Write rs = Returns (c', b, err)"
  shows "connectionIdReceived c' = connectionIdReceived c"
  using assms request_loop_frame [of c tid rs c' b err]
  by (auto simp: client_request_def split: outcome.splits option.splits)

lemma client_request0_frame:
  assumes "client_request0 c action enc tid Write rs = Returns (c', b, err)"
  shows "connectionIdReceived c' = connectionIdReceived c"
  using assms request_loop0_frame [of c action tid rs c' b err]
  by (auto simp: client_request0_def split: outcome.splits option.splits)

lemma request_loop_cases:
  assumes "request_loop c tid rs = Returns (c', bd, err)"
  shows "(\<exists>b e. (b, Some e) \<in> set rs \<and> OpError_Timeout e \<and> err = Some e \<and> bd = None
            \<and> c' = c\<lparr>contiguousTimeouts := contiguousTimeouts c + 1\<rparr>)
         \<or> (\<exists>d h. (d, None) \<in> set rs \<and> read_ResponseHeader d = Inr (h, the bd)
            \<and> TransactionId h = tid \<and> bd \<noteq> None \<and> c' = c\<lparr>contiguousTimeouts := 0\<rparr>)
         \<or> (bd = None \<and> err \<noteq> None \<and> c' = c)"
  using assms
proof (induction rs)
  case Nil
  then show ?case by simp
next
  case (Cons r rs)
  obtain b e where r: "r = (b, e)" by (cases r)
  consider (failed) x where "e = Some x"
    | (short) "e = None" "read_ResponseHeader b = Inl ErrUnexpectedEOF"
    | (bad) x where "e = None" "read_ResponseHeader b = Inl x" "x \<noteq> ErrUnexpectedEOF"
    | (other) h rest where "e = None" "read_ResponseHeader b = Inr (h, rest)" "TransactionId h \<noteq> tid"
    | (match) h rest where "e = None" "read_ResponseHeader b = Inr (h, rest)" "TransactionId h = tid"
    by (cases e; cases "read_ResponseHeader b") auto
  then show ?case
  proof cases
    case failed
    with Cons.prems r show ?thesis by (auto split: if_splits)
  next
    case short
    with Cons.prems r have "request_loop c tid rs = Returns (c', bd, err)" by simp
    from Cons.IH [OF this] show ?thesis by auto
  next
    case bad
    with Cons.prems r show ?thesis by auto
  next
    case other
    with Cons.prems r have "request_loop c tid rs = Returns (c', bd, err)" by auto
    from Cons.IH [OF this] show ?thesis by auto
  next
    case match
    with Cons.prems r show ?thesis by (auto split: if_splits)
  qed
qed

lemma request_loop0_cases:
  assumes "request_loop0 c action tid rs = Returns (c', bd, err)"
  shows "(\<exists>b e. (b, Some e) \<in> set rs \<and> OpError_Timeout e \<and> err = Some e \<and> bd = []
            \<and> c' = c\<lparr>contiguousTimeouts := contiguousTimeouts c + 1\<rparr>)
         \<or> (\<exists>d h. (d, None) \<in> set rs \<and> read_ResponseHeader d = Inr (h, bd)
            \<and> TransactionId h = tid \<and> Action h = action \<and> err = None
            \<and> c' = c\<lparr>contiguousTimeouts := 0\<rparr>)
         \<or> (bd = [] \<and> err \<noteq> None \<and> c' = c)"
  using assms
proof (induction rs)
  case Nil
  then show ?case by simp
next
  case (Cons r rs)
  obtain b e where r: "r = (b, e)" by (cases r)
  consider (failed) x where "e = Some x"
    | (short) "e = None" "read_ResponseHeader b = Inl ErrUnexpectedEOF"
    | (bad) x where "e = None" "read_ResponseHeader b = Inl x" "x \<noteq> ErrUnexpectedEOF"
    | (other) h rest where "e = None" "read_ResponseHeader b = Inr (h, rest)" "Action h \<noteq> action \<or> TransactionId h \<noteq> tid"
    | (match) h rest where "e = None" "read_ResponseHeader b = Inr (h, rest)" "Action h = action \<and> TransactionId h = tid"
    by (cases e; cases "read_ResponseHeader b") auto
  then show ?case
  proof cases
    case failed
    with Cons.prems r show ?thesis by (auto split: if_splits)
  next
    case short
    with Cons.prems r have "request_loop0 c action tid rs = Returns (c', bd, err)" by simp
    from Cons.IH [OF this] show ?thesis by auto
  next
    case bad
    with Cons.prems r show ?thesis by auto
  next
    case other
    with Cons.prems r have "request_loop0 c action tid rs = Returns (c', bd, err)"
      by (auto split: if_splits)
    from Cons.IH [OF this] show ?thesis by auto
  next
    case match
    with Cons.prems r show ?thesis by (auto split: if_splits)
  qed
qed



lemma read_Peer_full:
  assumes "6 \<le> length b"
  shows "read_Peer b
           = Inr (\<lparr>IP = take 4 b, Port = BigEndian (take 2 (drop 4 b))\<rparr>, drop 6 b)"
  using assms by (simp add: read_Peer_def ReadFull_def drop_take)

lemma read_Peer_short:
  assumes "length b < 6"
  shows "read_Peer b = Inl (if b = [] then EOF else ErrUnexpectedEOF)"
  using assms by (simp add: read_Peer_def ReadFull_def)

lemma peer_entry_Suc: "peer_entry b (Suc i) = peer_entry (drop 6 b) i"
  by (simp add: peer_entry_def add.commute)

lemma map_peer_entry_Suc:
  "map (peer_entry b) [0..<Suc N] = peer_entry b 0 # map (peer_entry (drop 6 b)) [0..<N]"
proof -
  have "[0..<Suc N] = 0 # map Suc [0..<N]"
    by (simp add: upt_conv_Cons map_Suc_upt del: upt_Suc)
  then show ?thesis
    by (simp add: peer_entry_Suc comp_def del: upt_Suc)
qed

lemma Announce_peers_records:
  assumes "length b = 6 * N + r" and "r < 6"
  shows "Announce_peers b peers
           = (peers @ map (peer_entry b) [0..<N], if r = 0 then None else Some ErrUnexpectedEOF)"
  using assms
proof (induction N arbitrary: b peers)
  case 0
  then have "length b < 6" by simp
  with 0 show ?case
    by (subst Announce_peers.simps) (auto simp: read_Peer_short)
next
  case (Suc N)
  then have l: "6 \<le> length b" and d: "length (drop 6 b) = 6 * N + r"
    by simp_all
  have "Announce_peers b peers = Announce_peers (drop 6 b) (peers @ [peer_entry b 0])"
    by (subst Announce_peers.simps) (simp add: read_Peer_full [OF l] peer_entry_def)
  also have "\<dots> = ((peers @ [peer_entry b 0]) @ map (peer_entry (drop 6 b)) [0..<N],
                    if r = 0 then None else Some ErrUnexpectedEOF)"
    by (rule Suc.IH [OF d Suc.prems(2)])
  finally show ?case
    by (simp only: map_peer_entry_Suc append_assoc append_Cons append_Nil)
qed

lemma read_AnnounceResponseHeader_full:
  assumes "12 \<le> length b"
  shows "read_AnnounceResponseHeader b
           = Inr (\<lparr>h_Interval = BigEndian (take 4 b),
                  h_Leechers = BigEndian (take 4 (drop 4 b)),
                  h_Seeders = BigEndian (take 4 (drop 8 b))\<rparr>, drop 12 b)"
  using assms by (simp add: read_AnnounceResponseHeader_def ReadFull_def drop_take)

lemma client_Announce_accepted:
  assumes conn: "connected c now"
    and sent: "client_write c Write
             \<lparr>req_ConnectionId = connectionId c, req_Action = Announce, req_TransactionId = tid\<rparr>
             (Body req) (Announce_options (RequestURI (url c))) = Returns None"
    and noise: "\<forall>x\<in>set pre. discarded tid x"
    and hdr: "read_ResponseHeader d = Inr (h, body)"
    and tid: "TransactionId h = tid"
    and act: "Action h \<noteq> Error"
    and len: "length body = 12 + 6 * N + r" and r: "r < 6"
  shows "client_Announce c now req tid Write (datagrams pre @ (d, None) # rs)
      = Returns (c\<lparr>contiguousTimeouts := 0\<rparr>,
          \<lparr>Interval = BigEndian (take 4 body),
           Leechers = BigEndian (take 4 (drop 4 body)),
           Seeders = BigEndian (take 4 (drop 8 body)),
           Peers = map (peer_entry (drop 12 body)) [0..<N]\<rparr>,
          if r = 0 then None else Some ErrUnexpectedEOF)"
proof -
  have req: "client_request c Announce (Body req) (Announce_options (RequestURI (url c))) tid
               Write (datagrams pre @ (d, None) # rs)
             = Returns (c\<lparr>contiguousTimeouts := 0\<rparr>, Some body, None)"
    using hdr tid act
    by (simp add: client_request_sent [OF sent] request_loop_skip [OF noise])
  have l: "12 \<le> length body" and d: "length (drop 12 body) = 6 * N + r"
    using len by simp_all
  show ?thesis
    using conn
    by (simp add: client_Announce_def req read_AnnounceResponseHeader_full [OF l]
        Announce_peers_records [OF d r])
qed




lemmas eval_defs = client_Connect_def client_connect0_def client_request_def client_request0_def
  client_write_def client_write0_def write_RequestHeader_def PutBigEndian_def sends_all_def
  read_ResponseHeader_def read_ConnectionResponse_def ReadFull_def BigEndian_def
  connected_def IsZero_def Before_def Add_def Minute_def Second_def newClient_def example_url_def
  example_client_def discarded_def discarded0_def Announce_options_def bytes_def String_def
  optionTypeURLData_def Connect_def Announce_def Error_def

subsection \<open>Backoff\<close>

text \<open>
  C3. The backoff function is \<open>timeout(n) = 15s * 2^min(n, 8)\<close>: as a 64-bit product, and
  as a number of nanoseconds without overflow. \<open>timeout(0) = 15s\<close>, \<open>timeout(3) = 120s\<close>,
  and \<open>timeout(n) = 3840s\<close> for every \<open>n \<ge> 8\<close>. (A negative \<open>n\<close>, which the counter never
  is, gives \<open>15s\<close>: the exponent is cut off at \<open>0\<close>.)
\<close>

theorem timeout_backoff:
  "timeout n = 15 * Second * 2 ^ nat (min (sint n) 8)
   \<and> sint (timeout n) = 15 * 1000000000 * 2 ^ nat (min (sint n) 8)
   \<and> timeout 0 = 15 * Second
   \<and> timeout 3 = 120 * Second
   \<and> (8 \<le> sint n \<longrightarrow> timeout n = 3840 * Second)"
proof -
  have w: "timeout n = 15 * Second * 2 ^ nat (min (sint n) 8)"
    by (simp add: timeout_def timeout_loop_eq min_def)
  have "nat (min (sint n) 8) \<le> 8"
    by linarith
  then have i: "sint (timeout n) = 15 * 1000000000 * 2 ^ nat (min (sint n) 8)"
    unfolding w by (rule sint_backoff)
  have z: "timeout 0 = 15 * Second"
    by (simp add: timeout_def timeout_loop_eq)
  have t: "timeout 3 = 120 * Second"
    by (simp add: timeout_def timeout_loop_eq Second_def)
  have c: "8 \<le> sint n \<longrightarrow> timeout n = 3840 * Second"
    unfolding w by (simp add: min_def Second_def)
  from w i z t c show ?thesis by blast
qed

theorem timeout_backoff_witness:
  "8 \<le> sint (20 :: go_int) \<and> timeout 20 = 3840 * Second \<and> timeout 8 = 3840 * Second"
  using timeout_backoff [of 20] timeout_backoff [of 8] by simp

subsection \<open>Connection token lifetime\<close>

text \<open>
  C4. A connection id received at time \<open>T\<close> (a clock reading, so not the zero \<open>Time\<close>) makes
  the client connected at exactly the times \<open>t\<close> with \<open>T \<le> t < T + 60s\<close>, and not connected
  at any \<open>t \<ge> T + 60s\<close>. A new client has the zero timestamp and is not connected.
  While the client is connected, \<open>Connect\<close> returns at once and keeps the connection id;
  a handshake that succeeds stores the clock reading taken at its end as \<open>T\<close>. The same
  holds for \<open>connect\<close> of the earlier variant, which makes the same test in place.
\<close>

theorem connection_token_validity:
  "(\<not> IsZero T \<and> T \<le> t \<longrightarrow>
      (connected (c\<lparr>connectionIdReceived := T\<rparr>) t \<longleftrightarrow> t < T + 60 * 1000000000))
   \<and> (\<not> IsZero T \<and> T + 60 * 1000000000 \<le> t \<longrightarrow>
      \<not> connected (c\<lparr>connectionIdReceived := T\<rparr>) t)
   \<and> IsZero (connectionIdReceived (newClient u))
   \<and> \<not> connected (newClient u) t
   \<and> (connected c t \<longrightarrow>
        client_Connect c t dial tid Write rs now' = Returns (c, None)
        \<and> client_connect0 c t enc tid Write rs now' = Returns (c, None))
   \<and> (\<not> connected c t \<and> client_Connect c t dial tid Write rs T = Returns (c', None) \<longrightarrow>
        connectionIdReceived c' = T)
   \<and> (\<not> connected c t \<and> client_connect0 c t enc tid Write rs T = Returns (c_old', None) \<longrightarrow>
        connectionIdReceived c_old' = T)"
proof -
  have window: "(\<not> IsZero T \<and> T \<le> t \<longrightarrow>
      (connected (c\<lparr>connectionIdReceived := T\<rparr>) t \<longleftrightarrow> t < T + 60 * 1000000000))
   \<and> (\<not> IsZero T \<and> T + 60 * 1000000000 \<le> t \<longrightarrow>
      \<not> connected (c\<lparr>connectionIdReceived := T\<rparr>) t)
   \<and> IsZero (connectionIdReceived (newClient u))
   \<and> \<not> connected (newClient u) t"
    by (simp add: connected_def IsZero_def Before_def Add_def Minute_def Second_def
        newClient_def)
  have reuse: "client_Connect c t dial tid Write rs now' = Returns (c, None)
        \<and> client_connect0 c t enc tid Write rs now' = Returns (c, None)"
    if "connected c t"
    using that by (simp add: client_Connect_def client_connect0_def connected_def)
  have stored: "connectionIdReceived c' = T"
    if "\<not> connected c t" "client_Connect c t dial tid Write rs T = Returns (c', None)"
    using that
    by (auto simp: client_Connect_def Let_def
        split: if_splits sum.splits outcome.splits option.splits)
  have stored_old: "connectionIdReceived c_old' = T"
    if "\<not> connected c t" "client_connect0 c t enc tid Write rs T = Returns (c_old', None)"
    using that
    by (auto simp: client_connect0_def Let_def connected_def
        split: if_splits sum.splits outcome.splits option.splits)
  from window reuse stored stored_old show ?thesis by blast
qed

theorem connection_token_validity_witness:
  "\<not> IsZero 100 \<and> (100 :: Time) \<le> 60000000099
   \<and> connected (example_client\<lparr>connectionIdReceived := 100\<rparr>) 60000000099
   \<and> (100 :: Time) + 60 * 1000000000 \<le> 60000000100
   \<and> \<not> connected (example_client\<lparr>connectionIdReceived := 100\<rparr>) 60000000100
   \<and> connected example_client 200
   \<and> client_Connect example_client 200 (Inr 1) 7 sends_all [] 300 = Returns (example_client, None)
   \<and> \<not> connected (newClient example_url) 5
   \<and> client_Connect (newClient example_url) 5 (Inr 0) 7 sends_all
        [([0, 0, 0, 0, 0, 0, 0, 7, 0x11, 0x22, 0x33, 0x44, 0x55, 0x66, 0x77, 0x88], None)] 9
       = Returns ((newClient example_url)\<lparr>connectionId := 0x1122334455667788, socket := Some 0,
                   connectionIdReceived := 9\<rparr>, None)
   \<and> client_connect0 ((newClient example_url)\<lparr>socket := Some 0\<rparr>) 5 (Some []) 7 sends_all
        [([0, 0, 0, 0, 0, 0, 0, 7, 0x11, 0x22, 0x33, 0x44, 0x55, 0x66, 0x77, 0x88], None)] 9
       = Returns ((newClient example_url)\<lparr>socket := Some 0, connectionId := 0x1122334455667788,
                   connectionIdReceived := 9\<rparr>, None)"
  using connection_token_validity [where T = 100 and t = 60000000099 and c = example_client]
    connection_token_validity [where T = 100 and t = 60000000100 and c = example_client]
    connection_token_validity [where c = example_client and t = 200 and dial = "Inr 1"
      and tid = 7 and Write = sends_all and rs = "[]" and now' = 300]
    connection_token_validity [where c = "newClient example_url" and t = 5 and dial = "Inr 0"
      and tid = 7 and Write = sends_all and T = 9
      and rs = "[([0, 0, 0, 0, 0, 0, 0, 7, 0x11, 0x22, 0x33, 0x44, 0x55, 0x66, 0x77, 0x88], None)]"
      and c' = "(newClient example_url)\<lparr>connectionId := 0x1122334455667788, socket := Some 0,
                   connectionIdReceived := 9\<rparr>"]
    connection_token_validity [where c = "(newClient example_url)\<lparr>socket := Some 0\<rparr>"
      and t = 5 and enc = "Some []" and tid = 7 and Write = sends_all and T = 9
      and rs = "[([0, 0, 0, 0, 0, 0, 0, 7, 0x11, 0x22, 0x33, 0x44, 0x55, 0x66, 0x77, 0x88], None)]"
      and c_old' = "(newClient example_url)\<lparr>socket := Some 0,
                   connectionId := 0x1122334455667788, connectionIdReceived := 9\<rparr>"]
  by (simp add: eval_defs)

subsection \<open>A failed handshake\<close>

text \<open>
  C10. When \<open>Connect\<close> returns an error, whatever the error (from \<open>net.Dial\<close>, from the
  socket, a timeout, or from decoding the connect response), the timestamp of the
  connection id is the one the client had before the call; so a client whose timestamp is
  zero is still not connected. The same holds for \<open>connect\<close> of the earlier variant.
\<close>

theorem Connect_failure_keeps_timestamp:
  "(client_Connect c now dial tid Write rs now' = Returns (c', Some e) \<longrightarrow>
      connectionIdReceived c' = connectionIdReceived c
      \<and> (IsZero (connectionIdReceived c) \<longrightarrow> \<not> connected c' t))
   \<and> (client_connect0 c now enc tid Write rs now' = Returns (c_old', Some e_old) \<longrightarrow>
      connectionIdReceived c_old' = connectionIdReceived c
      \<and> (IsZero (connectionIdReceived c) \<longrightarrow> \<not> connected c_old' t))"
proof -
  have new: "connectionIdReceived c' = connectionIdReceived c"
    if "client_Connect c now dial tid Write rs now' = Returns (c', Some e)"
    using that
    by (auto simp: client_Connect_def Let_def
        split: if_splits sum.splits outcome.splits option.splits
        dest!: client_request_frame)
  have old: "connectionIdReceived c_old' = connectionIdReceived c"
    if "client_connect0 c now enc tid Write rs now' = Returns (c_old', Some e_old)"
    using that
    by (auto simp: client_connect0_def Let_def
        split: if_splits sum.splits outcome.splits option.splits
        dest!: client_request0_frame)
  from new old show ?thesis
    by (auto simp: connected_def)
qed

theorem Connect_failure_keeps_timestamp_witness:
  "client_Connect (newClient example_url) 5 (Inl (OpError False ''dial failed'')) 7 sends_all [] 9
     = Returns ((newClient example_url)\<lparr>connectionId := 0x41727101980\<rparr>,
                Some (OpError False ''dial failed''))
   \<and> connectionIdReceived ((newClient example_url)\<lparr>connectionId := 0x41727101980\<rparr>) = 0
   \<and> \<not> connected ((newClient example_url)\<lparr>connectionId := 0x41727101980\<rparr>) 5
   \<and> client_connect0 ((newClient example_url)\<lparr>socket := Some 0\<rparr>) 5 (Some []) 7 sends_all
         [([0, 0, 0, 0, 0, 0, 0, 7, 1, 2, 3], None)] 9
     = Returns ((newClient example_url)\<lparr>socket := Some 0, connectionId := 0x41727101980\<rparr>,
                Some ErrUnexpectedEOF)
   \<and> connectionIdReceived
         ((newClient example_url)\<lparr>socket := Some 0, connectionId := 0x41727101980\<rparr>) = 0"
  using Connect_failure_keeps_timestamp
    [where c = "newClient example_url" and now = 5 and dial = "Inl (OpError False ''dial failed'')"
       and tid = 7 and Write = sends_all and rs = "[]" and now' = 9
       and c' = "(newClient example_url)\<lparr>connectionId := 0x41727101980\<rparr>"
       and e = "OpError False ''dial failed''" and t = 5]
    Connect_failure_keeps_timestamp
    [where c = "(newClient example_url)\<lparr>socket := Some 0\<rparr>" and now = 5 and enc = "Some []"
       and tid = 7 and Write = sends_all and rs = "[([0, 0, 0, 0, 0, 0, 0, 7, 1, 2, 3], None)]"
       and now' = 9
       and c_old' = "(newClient example_url)\<lparr>socket := Some 0, connectionId := 0x41727101980\<rparr>"
       and e_old = ErrUnexpectedEOF]
  by (simp add: eval_defs)

text \<open>The kinds of failure named in the claim, each on a new client.\<close>

lemma Connect_failures:
  "client_Connect (newClient example_url) 5 (Inr 0) 7 sends_all
      [([], Some (OpError False ''connection refused''))] 9
     = Returns ((newClient example_url)\<lparr>connectionId := 0x41727101980, socket := Some 0\<rparr>,
                Some (OpError False ''connection refused''))"
  "client_Connect (newClient example_url) 5 (Inr 0) 7 sends_all
      [([], Some (OpError True ''i/o timeout''))] 9
     = Returns ((newClient example_url)\<lparr>connectionId := 0x41727101980, socket := Some 0,
                   contiguousTimeouts := 1\<rparr>,
                Some (OpError True ''i/o timeout''))"
  "client_Connect (newClient example_url) 5 (Inr 0) 7 sends_all
      [([0, 0, 0, 0, 0, 0, 0, 7, 1, 2, 3], None)] 9
     = Returns ((newClient example_url)\<lparr>connectionId := 0x41727101980, socket := Some 0\<rparr>,
                Some ErrUnexpectedEOF)"
  by (simp_all add: eval_defs)

lemma Connect_success:
  "client_Connect (newClient example_url) 5 (Inr 0) 7 sends_all
      [([0, 0, 0, 0, 0, 0, 0, 7, 0x11, 0x22, 0x33, 0x44, 0x55, 0x66, 0x77, 0x88], None)] 9
     = Returns ((newClient example_url)\<lparr>connectionId := 0x1122334455667788, socket := Some 0,
                   connectionIdReceived := 9\<rparr>, None)"
  by (simp add: eval_defs)

subsection \<open>The contiguous-timeout counter\<close>

text \<open>
  C2. In a call of \<open>request\<close>, after any number of discarded datagrams: a read that
  fails with a timeout (\<open>*net.OpError\<close> whose \<open>Timeout()\<close> holds) adds exactly one
  to the counter and ends the call; a read that fails with another error ends the call with
  the counter unchanged; a datagram that correlates sets the counter to \<open>0\<close> whatever it
  was. Nothing else changes the counter: a call that returns has either seen a timed-out
  read and added one, or accepted a datagram and stored \<open>0\<close>, or left the client as it
  was. Both variants of \<open>request\<close> behave so.
\<close>

theorem contiguousTimeouts_updates:
  assumes noise: "\<forall>d\<in>set pre. discarded tid d"
    and noise_old: "\<forall>d\<in>set pre_old. discarded0 action tid d"
  shows
   "(OpError_Timeout e \<longrightarrow>
       request_loop c tid (datagrams pre @ (b, Some e) # rs)
         = Returns (c\<lparr>contiguousTimeouts := contiguousTimeouts c + 1\<rparr>, None, Some e)
       \<and> request_loop0 c action tid (datagrams pre_old @ (b, Some e) # rs)
         = Returns (c\<lparr>contiguousTimeouts := contiguousTimeouts c + 1\<rparr>, [], Some e))
    \<and> (\<not> OpError_Timeout e \<longrightarrow>
       request_loop c tid (datagrams pre @ (b, Some e) # rs) = Returns (c, None, Some e)
       \<and> request_loop0 c action tid (datagrams pre_old @ (b, Some e) # rs)
         = Returns (c, [], Some e))
    \<and> (read_ResponseHeader d = Inr (h, body) \<and> TransactionId h = tid \<longrightarrow>
       request_loop c tid (datagrams pre @ (d, None) # rs)
         = Returns (c\<lparr>contiguousTimeouts := 0\<rparr>, Some body,
             if Action h = Error then Some (errorString (String body)) else None))
    \<and> (read_ResponseHeader d = Inr (h, body) \<and> TransactionId h = tid \<and> Action h = action \<longrightarrow>
       request_loop0 c action tid (datagrams pre_old @ (d, None) # rs)
         = Returns (c\<lparr>contiguousTimeouts := 0\<rparr>, body, None))
    \<and> (client_request c action args options tid Write rs = Returns (c', bd, err) \<longrightarrow>
         (\<exists>b e. (b, Some e) \<in> set rs \<and> OpError_Timeout e \<and> err = Some e
            \<and> c' = c\<lparr>contiguousTimeouts := contiguousTimeouts c + 1\<rparr>)
         \<or> (\<exists>d h. (d, None) \<in> set rs \<and> read_ResponseHeader d = Inr (h, the bd)
            \<and> TransactionId h = tid \<and> c' = c\<lparr>contiguousTimeouts := 0\<rparr>)
         \<or> c' = c)
    \<and> (client_request0 c action enc tid Write rs = Returns (c_old', bd_old, err_old) \<longrightarrow>
         (\<exists>b e. (b, Some e) \<in> set rs \<and> OpError_Timeout e \<and> err_old = Some e
            \<and> c_old' = c\<lparr>contiguousTimeouts := contiguousTimeouts c + 1\<rparr>)
         \<or> (\<exists>d h. (d, None) \<in> set rs \<and> read_ResponseHeader d = Inr (h, bd_old)
            \<and> TransactionId h = tid \<and> Action h = action
            \<and> c_old' = c\<lparr>contiguousTimeouts := 0\<rparr>)
         \<or> c_old' = c)"
proof -
  have t: "request_loop c tid (datagrams pre @ (b, Some e) # rs)
         = Returns (c\<lparr>contiguousTimeouts := contiguousTimeouts c + 1\<rparr>, None, Some e)"
    if "OpError_Timeout e"
    using that by (simp add: request_loop_skip [OF noise])
  have t_old: "request_loop0 c action tid (datagrams pre_old @ (b, Some e) # rs)
         = Returns (c\<lparr>contiguousTimeouts := contiguousTimeouts c + 1\<rparr>, [], Some e)"
    if "OpError_Timeout e"
    using that by (simp add: request_loop0_skip [OF noise_old])
  have o: "request_loop c tid (datagrams pre @ (b, Some e) # rs) = Returns (c, None, Some e)"
    if "\<not> OpError_Timeout e"
    using that by (simp add: request_loop_skip [OF noise])
  have o_old: "request_loop0 c action tid (datagrams pre_old @ (b, Some e) # rs)
         = Returns (c, [], Some e)"
    if "\<not> OpError_Timeout e"
    using that by (simp add: request_loop0_skip [OF noise_old])
  have m: "request_loop c tid (datagrams pre @ (d, None) # rs)
         = Returns (c\<lparr>contiguousTimeouts := 0\<rparr>, Some body,
             if Action h = Error then Some (errorString (String body)) else None)"
    if "read_ResponseHeader d = Inr (h, body)" "TransactionId h = tid"
    using that by (simp add: request_loop_skip [OF noise])
  have m_old: "request_loop0 c action tid (datagrams pre_old @ (d, None) # rs)
         = Returns (c\<lparr>contiguousTimeouts := 0\<rparr>, body, None)"
    if "read_ResponseHeader d = Inr (h, body)" "TransactionId h = tid" "Action h = action"
    using that by (simp add: request_loop0_skip [OF noise_old])
  have w: "(\<exists>b e. (b, Some e) \<in> set rs \<and> OpError_Timeout e \<and> err = Some e
            \<and> c' = c\<lparr>contiguousTimeouts := contiguousTimeouts c + 1\<rparr>)
         \<or> (\<exists>d h. (d, None) \<in> set rs \<and> read_ResponseHeader d = Inr (h, the bd)
            \<and> TransactionId h = tid \<and> c' = c\<lparr>contiguousTimeouts := 0\<rparr>)
         \<or> c' = c"
    if r: "client_request c action args options tid Write rs = Returns (c', bd, err)"
  proof (cases "client_request c action args options tid Write rs = request_loop c tid rs")
    case True
    with r request_loop_cases [of c tid rs c' bd err] show ?thesis by auto
  next
    case False
    with r show ?thesis
      by (auto simp: client_request_def split: outcome.splits option.splits)
  qed
  have w_old: "(\<exists>b e. (b, Some e) \<in> set rs \<and> OpError_Timeout e \<and> err_old = Some e
            \<and> c_old' = c\<lparr>contiguousTimeouts := contiguousTimeouts c + 1\<rparr>)
         \<or> (\<exists>d h. (d, None) \<in> set rs \<and> read_ResponseHeader d = Inr (h, bd_old)
            \<and> TransactionId h = tid \<and> Action h = action
            \<and> c_old' = c\<lparr>contiguousTimeouts := 0\<rparr>)
         \<or> c_old' = c"
    if r: "client_request0 c action enc tid Write rs = Returns (c_old', bd_old, err_old)"
  proof (cases "client_request0 c action enc tid Write rs = request_loop0 c action tid rs")
    case True
    with r request_loop0_cases [of c action tid rs c_old' bd_old err_old] show ?thesis by auto
  next
    case False
    with r show ?thesis
      by (auto simp: client_request0_def split: outcome.splits option.splits)
  qed
  from t t_old o o_old m m_old w w_old show ?thesis by blast
qed



theorem contiguousTimeouts_updates_witness:
  "discarded 7 [1, 2, 3]
   \<and> discarded0 Connect 7 [0, 0, 0, 1, 0, 0, 0, 7]
   \<and> OpError_Timeout (OpError True ''i/o timeout'')
   \<and> request_loop example_client 7
         (datagrams [[1, 2, 3]] @ ([], Some (OpError True ''i/o timeout'')) # [])
       = Returns (example_client\<lparr>contiguousTimeouts := 6\<rparr>, None,
                  Some (OpError True ''i/o timeout''))
   \<and> \<not> OpError_Timeout (OpError False ''connection refused'')
   \<and> request_loop0 example_client Connect 7
         (datagrams [[0, 0, 0, 1, 0, 0, 0, 7]] @ ([], Some (OpError False ''connection refused'')) # [])
       = Returns (example_client, [], Some (OpError False ''connection refused''))
   \<and> read_ResponseHeader [0, 0, 0, 0, 0, 0, 0, 7, 9]
       = Inr (\<lparr>Action = Connect, TransactionId = 7\<rparr>, [9])
   \<and> request_loop example_client 7 (datagrams [[1, 2, 3]] @ ([0, 0, 0, 0, 0, 0, 0, 7, 9], None) # [])
       = Returns (example_client\<lparr>contiguousTimeouts := 0\<rparr>, Some [9], None)
   \<and> request_loop0 example_client Connect 7
         (datagrams [[0, 0, 0, 1, 0, 0, 0, 7]] @ ([0, 0, 0, 0, 0, 0, 0, 7, 9], None) # [])
       = Returns (example_client\<lparr>contiguousTimeouts := 0\<rparr>, [9], None)
   \<and> client_request example_client Connect NilBody [] 7 sends_all
         [([], Some (OpError True ''i/o timeout''))]
       = Returns (example_client\<lparr>contiguousTimeouts := 6\<rparr>, None,
                  Some (OpError True ''i/o timeout''))
   \<and> client_request0 example_client Connect (Some []) 7 sends_all
         [([], Some (OpError True ''i/o timeout''))]
       = Returns (example_client\<lparr>contiguousTimeouts := 6\<rparr>, [],
                  Some (OpError True ''i/o timeout''))"
  using contiguousTimeouts_updates
    [where pre = "[[1, 2, 3]]" and tid = 7 and pre_old = "[[0, 0, 0, 1, 0, 0, 0, 7]]"
       and action = Connect and e = "OpError True ''i/o timeout''" and c = example_client
       and b = "[]" and rs = "[]" and d = "[0, 0, 0, 0, 0, 0, 0, 7, 9]"
       and h = "\<lparr>Action = Connect, TransactionId = 7\<rparr>" and body = "[9]"]
    contiguousTimeouts_updates
    [where pre = "[[1, 2, 3]]" and tid = 7 and pre_old = "[[0, 0, 0, 1, 0, 0, 0, 7]]"
       and action = Connect and e = "OpError False ''connection refused''" and c = example_client
       and b = "[]" and rs = "[]"]
    contiguousTimeouts_updates
    [where pre = "[]" and tid = 7 and pre_old = "[]" and action = Connect and c = example_client
       and args = NilBody and options = "[]" and Write = sends_all and enc = "Some []"
       and rs = "[([], Some (OpError True ''i/o timeout''))]"
       and c' = "example_client\<lparr>contiguousTimeouts := 6\<rparr>" and bd = None
       and err = "Some (OpError True ''i/o timeout'')"
       and c_old' = "example_client\<lparr>contiguousTimeouts := 6\<rparr>" and bd_old = "[]"
       and err_old = "Some (OpError True ''i/o timeout'')"]
  by (simp add: eval_defs)


subsection \<open>Correlation of responses\<close>

text \<open>
  C1, as stated, fails on \<^verbatim>\<open>tracker/udp/udp_tracker.go\<close>: \<open>request\<close> compares the
  transaction id only. A call that asked for \<open>Announce\<close> accepts a datagram whose header
  says \<open>Connect\<close> and carries the call's transaction id, and returns its body.
\<close>

theorem request_accepts_other_action:
  "read_ResponseHeader [0, 0, 0, 0, 0, 0, 0, 7, 1, 2]
     = Inr (\<lparr>Action = Connect, TransactionId = 7\<rparr>, [1, 2])
   \<and> Connect \<noteq> Announce
   \<and> client_request example_client Announce (Body (Some [1])) (Announce_options ''/announce'') 7
        sends_all
        [([0, 0, 0, 0, 0, 0, 0, 7, 1, 2], None)]
     = Returns (example_client\<lparr>contiguousTimeouts := 0\<rparr>, Some [1, 2], None)"
  by (simp add: eval_defs)

text \<open>
  C1, amended. After any number of discarded datagrams, a datagram with a full header is
  treated as follows. In \<^verbatim>\<open>tracker/udp/udp_tracker.go\<close> it is accepted exactly when its
  transaction id is the call's, whatever its action: the counter is reset and the body
  returned (together with the body as error message when the action is \<open>Error\<close>);
  otherwise it is discarded and the loop continues. In the earlier variant it is accepted
  exactly when both its action is the requested one and its transaction id is the call's.
\<close>

theorem request_correlation:
  assumes sent: "client_write c Write
             \<lparr>req_ConnectionId = connectionId c, req_Action = action, req_TransactionId = tid\<rparr>
             args options = Returns None"
    and sent_old: "client_write0 c Write
             \<lparr>req_ConnectionId = connectionId c, req_Action = action, req_TransactionId = tid\<rparr>
             enc = Returns None"
    and noise: "\<forall>x\<in>set pre. discarded tid x"
    and noise_old: "\<forall>x\<in>set pre_old. discarded0 action tid x"
    and hdr: "read_ResponseHeader d = Inr (h, body)"
  shows
   "client_request c action args options tid Write (datagrams pre @ (d, None) # rs)
      = (if TransactionId h = tid
         then Returns (c\<lparr>contiguousTimeouts := 0\<rparr>, Some body,
                if Action h = Error then Some (errorString (String body)) else None)
         else client_request c action args options tid Write rs)
    \<and> client_request0 c action enc tid Write (datagrams pre_old @ (d, None) # rs)
      = (if Action h = action \<and> TransactionId h = tid
         then Returns (c\<lparr>contiguousTimeouts := 0\<rparr>, body, None)
         else client_request0 c action enc tid Write rs)"
  using hdr
  by (simp add: client_request_sent [OF sent] client_request0_sent [OF sent_old]
      request_loop_skip [OF noise] request_loop0_skip [OF noise_old])

theorem request_correlation_witness:
  "client_write example_client sends_all
      \<lparr>req_ConnectionId = connectionId example_client, req_Action = Announce,
       req_TransactionId = 7\<rparr> NilBody [] = Returns None
   \<and> client_write0 example_client sends_all
      \<lparr>req_ConnectionId = connectionId example_client, req_Action = Announce,
       req_TransactionId = 7\<rparr> (Some []) = Returns None
   \<and> discarded 7 [1, 2, 3] \<and> discarded 7 [0, 0, 0, 1, 0, 0, 0, 8]
   \<and> discarded0 Announce 7 [0, 0, 0, 3, 0, 0, 0, 7]
   \<and> read_ResponseHeader [0, 0, 0, 0, 0, 0, 0, 7, 1, 2]
       = Inr (\<lparr>Action = Connect, TransactionId = 7\<rparr>, [1, 2])
   \<and> client_request example_client Announce NilBody [] 7 sends_all
        (datagrams [[1, 2, 3], [0, 0, 0, 1, 0, 0, 0, 8]]
           @ ([0, 0, 0, 0, 0, 0, 0, 7, 1, 2], None) # [])
       = Returns (example_client\<lparr>contiguousTimeouts := 0\<rparr>, Some [1, 2], None)
   \<and> client_request0 example_client Announce (Some []) 7 sends_all
        (datagrams [[0, 0, 0, 3, 0, 0, 0, 7]] @ ([0, 0, 0, 0, 0, 0, 0, 7, 1, 2], None) # [])
       = Blocks"
  using request_correlation
    [where c = example_client and Write = sends_all and action = Announce and tid = 7
       and args = NilBody and options = "[]" and enc = "Some []"
       and pre = "[[1, 2, 3], [0, 0, 0, 1, 0, 0, 0, 8]]" and pre_old = "[[0, 0, 0, 3, 0, 0, 0, 7]]"
       and d = "[0, 0, 0, 0, 0, 0, 0, 7, 1, 2]"
       and h = "\<lparr>Action = Connect, TransactionId = 7\<rparr>" and body = "[1, 2]" and rs = "[]"]
  by (simp add: eval_defs)

subsection \<open>Error responses\<close>




subsection \<open>Datagrams shorter than a header\<close>

text \<open>
  C8 at the datagram on which the code departs from it. A datagram of length zero ends
  the call with \<open>io.EOF\<close>: \<open>binary.Read\<close> answers \<open>io.EOF\<close>, not
  \<open>io.ErrUnexpectedEOF\<close>, when it can read no byte at all, and the loop continues on
  \<open>io.ErrUnexpectedEOF\<close> only. A datagram of one to seven bytes is discarded, as the
  claim says. Both variants of \<open>request\<close> behave so.
\<close>

theorem empty_datagram_ends_request:
  assumes sent: "client_write c Write
             \<lparr>req_ConnectionId = connectionId c, req_Action = action, req_TransactionId = tid\<rparr>
             args options = Returns None"
    and sent_old: "client_write0 c Write
             \<lparr>req_ConnectionId = connectionId c, req_Action = action, req_TransactionId = tid\<rparr>
             enc = Returns None"
    and noise: "\<forall>x\<in>set pre. discarded tid x"
    and noise_old: "\<forall>x\<in>set pre_old. discarded0 action tid x"
  shows
   "client_request c action args options tid Write (datagrams pre @ ([], None) # rs)
      = Returns (c, None, Some EOF)
    \<and> client_request0 c action enc tid Write (datagrams pre_old @ ([], None) # rs)
      = Returns (c, [], Some EOF)
    \<and> (0 < length d \<and> length d < 8 \<longrightarrow>
        client_request c action args options tid Write (datagrams pre @ (d, None) # rs)
          = client_request c action args options tid Write rs
        \<and> client_request0 c action enc tid Write (datagrams pre_old @ (d, None) # rs)
          = client_request0 c action enc tid Write rs)"
  by (auto simp: client_request_sent [OF sent] client_request0_sent [OF sent_old]
      request_loop_skip [OF noise] request_loop0_skip [OF noise_old]
      read_ResponseHeader_def ReadFull_def)

theorem empty_datagram_ends_request_witness:
  "client_write example_client sends_all
      \<lparr>req_ConnectionId = connectionId example_client, req_Action = Announce,
       req_TransactionId = 7\<rparr> NilBody [] = Returns None
   \<and> client_write0 example_client sends_all
      \<lparr>req_ConnectionId = connectionId example_client, req_Action = Announce,
       req_TransactionId = 7\<rparr> (Some []) = Returns None
   \<and> discarded 7 [0, 0, 0, 1, 0, 0, 0, 8]
   \<and> discarded0 Announce 7 [0, 0, 0, 1, 0, 0, 0, 8]
   \<and> client_request example_client Announce NilBody [] 7 sends_all
        (datagrams [[0, 0, 0, 1, 0, 0, 0, 8]] @ ([], None)
           # [([0, 0, 0, 1, 0, 0, 0, 7], None)])
       = Returns (example_client, None, Some EOF)
   \<and> client_request0 example_client Announce (Some []) 7 sends_all
        (datagrams [[0, 0, 0, 1, 0, 0, 0, 8]] @ ([], None)
           # [([0, 0, 0, 1, 0, 0, 0, 7], None)])
       = Returns (example_client, [], Some EOF)
   \<and> 0 < length [1 :: byte, 2, 3] \<and> length [1 :: byte, 2, 3] < 8
   \<and> client_request example_client Announce NilBody [] 7 sends_all
        (datagrams [[0, 0, 0, 1, 0, 0, 0, 8]] @ ([1, 2, 3], None)
           # [([0, 0, 0, 1, 0, 0, 0, 7], None)])
       = Returns (example_client\<lparr>contiguousTimeouts := 0\<rparr>, Some [], None)"
  using empty_datagram_ends_request
    [where c = example_client and Write = sends_all and action = Announce and tid = 7
       and args = NilBody and options = "[]" and enc = "Some []"
       and pre = "[[0, 0, 0, 1, 0, 0, 0, 8]]" and pre_old = "[[0, 0, 0, 1, 0, 0, 0, 8]]"
       and d = "[1, 2, 3]" and rs = "[([0, 0, 0, 1, 0, 0, 0, 7], None)]"]
  by (simp add: eval_defs)

subsection \<open>The BEP 41 option block\<close>

text \<open>
  C9 at the input on which the code departs from it. The option block is the type byte
  \<open>2\<close>, the low eight bits of the length of the request URI, and then all bytes of the
  request URI. Up to 255 bytes the length byte is the length; a request URI of 256 bytes
  gives the length byte \<open>0\<close> followed by all 256 bytes: nothing is truncated.
\<close>

theorem Announce_options_layout:
  "length (Announce_options reqURI) = 2 + length reqURI
   \<and> Announce_options reqURI ! 0 = optionTypeURLData
   \<and> unat (Announce_options reqURI ! 1) = length reqURI mod 256
   \<and> drop 2 (Announce_options reqURI) = bytes reqURI
   \<and> (length reqURI \<le> 255 \<longrightarrow> unat (Announce_options reqURI ! 1) = length reqURI)
   \<and> Announce_options (replicate 256 CHR ''a'') = 2 # 0 # replicate 256 97"
  by (simp add: Announce_options_def bytes_def unat_of_nat optionTypeURLData_def)

theorem Announce_options_layout_witness:
  "length ''/announce'' \<le> 255
   \<and> Announce_options ''/announce'' = [2, 9, 47, 97, 110, 110, 111, 117, 110, 99, 101]
   \<and> unat (Announce_options ''/announce'' ! 1) = length ''/announce''"
  using Announce_options_layout [of "''/announce''"]
  by (simp add: Announce_options_def bytes_def optionTypeURLData_def)


subsection \<open>Decoding the announce response\<close>



text \<open>
  C6 at the bodies on which the code departs from it. When the body is \<open>12 + 6 * N + r\<close>
  bytes long with \<open>0 < r < 6\<close>, \<open>Announce\<close> returns \<open>io.ErrUnexpectedEOF\<close> itself from the
  peer loop, beside the \<open>N\<close> peers read so far; the error is not wrapped. Only a body
  too short for the twelve-byte header gives the error with the context
  \<open>error parsing announce response\<close>.
\<close>

theorem Announce_truncated_peer_entry:
  assumes conn: "connected c now"
    and sent: "client_write c Write
             \<lparr>req_ConnectionId = connectionId c, req_Action = Announce, req_TransactionId = tid\<rparr>
             (Body req) (Announce_options (RequestURI (url c))) = Returns None"
    and noise: "\<forall>x\<in>set pre. discarded tid x"
    and hdr: "read_ResponseHeader d = Inr (h, body)"
    and tid: "TransactionId h = tid"
    and act: "Action h \<noteq> Error"
  shows
   "(length body = 12 + 6 * N + r \<and> 0 < r \<and> r < 6 \<longrightarrow>
       client_Announce c now req tid Write (datagrams pre @ (d, None) # rs)
         = Returns (c\<lparr>contiguousTimeouts := 0\<rparr>,
             \<lparr>Interval = BigEndian (take 4 body),
              Leechers = BigEndian (take 4 (drop 4 body)),
              Seeders = BigEndian (take 4 (drop 8 body)),
              Peers = map (peer_entry (drop 12 body)) [0..<N]\<rparr>,
             Some ErrUnexpectedEOF))
    \<and> (length body < 12 \<longrightarrow>
       client_Announce c now req tid Write (datagrams pre @ (d, None) # rs)
         = Returns (c\<lparr>contiguousTimeouts := 0\<rparr>, no_response,
             Some (errorString ''error parsing announce response: unexpected EOF'')))"
proof -
  have peers: "client_Announce c now req tid Write (datagrams pre @ (d, None) # rs)
         = Returns (c\<lparr>contiguousTimeouts := 0\<rparr>,
             \<lparr>Interval = BigEndian (take 4 body),
              Leechers = BigEndian (take 4 (drop 4 body)),
              Seeders = BigEndian (take 4 (drop 8 body)),
              Peers = map (peer_entry (drop 12 body)) [0..<N]\<rparr>,
             Some ErrUnexpectedEOF)"
    if "length body = 12 + 6 * N + r" "0 < r" "r < 6"
    using client_Announce_accepted [OF conn sent noise hdr tid act that(1) that(3)] that(2)
    by simp
  have req: "client_request c Announce (Body req) (Announce_options (RequestURI (url c))) tid
               Write (datagrams pre @ (d, None) # rs)
             = Returns (c\<lparr>contiguousTimeouts := 0\<rparr>, Some body, None)"
    using hdr tid act
    by (simp add: client_request_sent [OF sent] request_loop_skip [OF noise])
  have header: "client_Announce c now req tid Write (datagrams pre @ (d, None) # rs)
         = Returns (c\<lparr>contiguousTimeouts := 0\<rparr>, no_response,
             Some (errorString ''error parsing announce response: unexpected EOF''))"
    if "length body < 12"
    using conn that
    by (simp add: client_Announce_def req read_AnnounceResponseHeader_def ReadFull_def)
  from peers header show ?thesis by blast
qed

theorem Announce_truncated_peer_entry_witness:
  "connected example_client 200
   \<and> client_write example_client sends_all
        \<lparr>req_ConnectionId = connectionId example_client, req_Action = Announce,
         req_TransactionId = 7\<rparr>
        (Body (Some [1])) (Announce_options (RequestURI (url example_client))) = Returns None
   \<and> discarded 7 [1, 2, 3]
   \<and> read_ResponseHeader [0, 0, 0, 1, 0, 0, 0, 7, 0, 0, 7, 8, 0, 0, 0, 2, 0, 0, 0, 5, 10]
       = Inr (\<lparr>Action = Announce, TransactionId = 7\<rparr>,
              [0, 0, 7, 8, 0, 0, 0, 2, 0, 0, 0, 5, 10])
   \<and> length [0 :: byte, 0, 7, 8, 0, 0, 0, 2, 0, 0, 0, 5, 10] = 12 + 6 * 0 + 1
   \<and> client_Announce example_client 200 (Some [1]) 7 sends_all
        (datagrams [[1, 2, 3]]
           @ ([0, 0, 0, 1, 0, 0, 0, 7, 0, 0, 7, 8, 0, 0, 0, 2, 0, 0, 0, 5, 10], None) # [])
       = Returns (example_client\<lparr>contiguousTimeouts := 0\<rparr>,
           \<lparr>Interval = 1800, Leechers = 2, Seeders = 5, Peers = []\<rparr>, Some ErrUnexpectedEOF)
   \<and> read_ResponseHeader [0, 0, 0, 1, 0, 0, 0, 7, 0, 0, 7, 8, 0]
       = Inr (\<lparr>Action = Announce, TransactionId = 7\<rparr>, [0, 0, 7, 8, 0])
   \<and> length [0 :: byte, 0, 7, 8, 0] < 12
   \<and> client_Announce example_client 200 (Some [1]) 7 sends_all
        (datagrams [[1, 2, 3]] @ ([0, 0, 0, 1, 0, 0, 0, 7, 0, 0, 7, 8, 0], None) # [])
       = Returns (example_client\<lparr>contiguousTimeouts := 0\<rparr>, no_response,
           Some (errorString ''error parsing announce response: unexpected EOF''))"
proof -
  have pre: "connected example_client 200"
    "client_write example_client sends_all
        \<lparr>req_ConnectionId = connectionId example_client, req_Action = Announce,
         req_TransactionId = 7\<rparr>
        (Body (Some [1])) (Announce_options (RequestURI (url example_client))) = Returns None"
    "\<forall>x\<in>set [[1, 2, 3]]. discarded 7 x"
    by (simp_all add: eval_defs)
  have long: "read_ResponseHeader [0, 0, 0, 1, 0, 0, 0, 7, 0, 0, 7, 8, 0, 0, 0, 2, 0, 0, 0, 5, 10]
       = Inr (\<lparr>Action = Announce, TransactionId = 7\<rparr>,
              [0, 0, 7, 8, 0, 0, 0, 2, 0, 0, 0, 5, 10])"
    and short: "read_ResponseHeader [0, 0, 0, 1, 0, 0, 0, 7, 0, 0, 7, 8, 0]
       = Inr (\<lparr>Action = Announce, TransactionId = 7\<rparr>, [0, 0, 7, 8, 0])"
    and hd: "TransactionId \<lparr>Action = Announce, TransactionId = 7\<rparr> = 7"
    "Action \<lparr>Action = Announce, TransactionId = 7\<rparr> \<noteq> Error"
    by (simp_all add: eval_defs)
  have res: "\<lparr>Interval = BigEndian (take 4 [0 :: byte, 0, 7, 8, 0, 0, 0, 2, 0, 0, 0, 5, 10]),
           Leechers = BigEndian (take 4 (drop 4 [0 :: byte, 0, 7, 8, 0, 0, 0, 2, 0, 0, 0, 5, 10])),
           Seeders = BigEndian (take 4 (drop 8 [0 :: byte, 0, 7, 8, 0, 0, 0, 2, 0, 0, 0, 5, 10])),
           Peers = map (peer_entry (drop 12 [0, 0, 7, 8, 0, 0, 0, 2, 0, 0, 0, 5, 10])) [0..<0]\<rparr>
         = \<lparr>Interval = 1800, Leechers = 2, Seeders = 5, Peers = []\<rparr>"
    by (simp add: BigEndian_def)
  from Announce_truncated_peer_entry [OF pre long hd, of 0 1 "[]"]
    Announce_truncated_peer_entry [OF pre short hd, of 0 1 "[]"]
    pre long short
  show ?thesis
    unfolding res by simp
qed


end
